theory Spec2Isabelle
  imports Complex_Main "HOL-Library.AList" "HOL-Library.Sublist"
begin

section \<open>Python values shared by both subsystems\<close>

text \<open>
  Exceptions are values. \<open>AttributeError t a\<close> is Python's
  "'t' object has no attribute 'a'", \<open>TypeError m\<close> carries its message, and
  \<open>Raised m\<close> is any exception thrown by an external collaborator (the warehouse
  client, the HTTP client, the JSON decoder) with \<open>str(e) = m\<close>.
\<close>

datatype exn = AttributeError string string | TypeError string | Raised string

definition squote :: string where
  "squote = [CHR 0x27]"

fun str_exn :: "exn \<Rightarrow> string" where
  "str_exn (AttributeError t a) =
     squote @ t @ squote @ '' object has no attribute '' @ squote @ a @ squote"
| "str_exn (TypeError m) = m"
| "str_exn (Raised m) = m"

text \<open>
  \<open>str.strip()\<close> without arguments removes leading and trailing whitespace. A
  \<open>char\<close> is one byte, so the whitespace test is Python's \<open>str.isspace\<close> on the
  code points below 256: TAB..CR, FS..US, SPACE, NEL and NBSP.
\<close>

definition is_space :: "char \<Rightarrow> bool" where
  "is_space c =
     (let n = (of_char c :: nat)
      in (9 \<le> n \<and> n \<le> 13) \<or> (28 \<le> n \<and> n \<le> 31) \<or> n = 32 \<or> n = 133 \<or> n = 160)"

definition strip :: "string \<Rightarrow> string" where
  "strip s = rev (dropWhile is_space (rev (dropWhile is_space s)))"

text \<open>\<open>str(n)\<close> for an integer, as an f-string renders it.\<close>

fun digits :: "nat \<Rightarrow> string" where
  "digits n =
     (if n < 10 then [''0123456789'' ! n]
      else digits (n div 10) @ [''0123456789'' ! (n mod 10)])"

definition str_int :: "int \<Rightarrow> string" where
  "str_int i = (if i < 0 then ''-'' @ digits (nat (- i)) else digits (nat i))"


section \<open>The SQL helper with its TTL cache (core.py)\<close>

subsection \<open>What the warehouse client returns\<close>

datatype statement_state = CANCELED | CLOSED | FAILED | PENDING | RUNNING | SUCCEEDED

record service_error =
  error_message :: "string option"

record statement_status =
  status_state :: "statement_state option"
  status_error :: "service_error option"

record column_info =
  column_name :: "string option"

record result_schema =
  schema_columns :: "column_info list option"

record result_manifest =
  manifest_schema :: "result_schema option"

record result_data =
  data_array :: "string option list list option"

record statement_response =
  response_status :: "statement_status option"
  response_manifest :: "result_manifest option"
  response_result :: "result_data option"

text \<open>
  A row is the dict built by \<open>dict(zip(columns, row))\<close>: keys in insertion order, a
  repeated key keeps its first position and takes the later value.
\<close>

type_synonym row = "(string option \<times> string option) list"

definition dict_zip :: "string option list \<Rightarrow> string option list \<Rightarrow> row" where
  "dict_zip cols cells = fold (\<lambda>(k, v) d. AList.update k v d) (zip cols cells) []"

text \<open>
  The local variable \<open>state\<close>: the status's state, or the string "UNKNOWN" when the
  response has no status.
\<close>

datatype state_value = UNKNOWN | State "statement_state option"

definition response_state :: "statement_response \<Rightarrow> state_value" where
  "response_state response =
     (case response_status response of
        Some st \<Rightarrow> State (status_state st)
      | None \<Rightarrow> UNKNOWN)"

text \<open>
  The guard \<open>response.manifest and response.result and response.result.data_array\<close>
  yields the manifest and the non-empty data array when all three are truthy.
\<close>

definition result_rows ::
  "statement_response \<Rightarrow> (result_manifest \<times> string option list list) option" where
  "result_rows response =
     (case response_manifest response of
        None \<Rightarrow> None
      | Some m \<Rightarrow>
          (case response_result response of
             None \<Rightarrow> None
           | Some r \<Rightarrow>
               (case data_array r of
                  None \<Rightarrow> None
                | Some [] \<Rightarrow> None
                | Some (x # xs) \<Rightarrow> Some (m, x # xs))))"

text \<open>
  \<open>[col.name for col in response.manifest.schema.columns]\<close>: a manifest without a
  schema raises AttributeError, a schema without columns raises TypeError.
\<close>

definition column_names :: "result_manifest \<Rightarrow> exn + string option list" where
  "column_names m =
     (case manifest_schema m of
        None \<Rightarrow> Inl (AttributeError ''NoneType'' ''columns'')
      | Some sch \<Rightarrow>
          (case schema_columns sch of
             None \<Rightarrow> Inl (TypeError (squote @ ''NoneType'' @ squote @ '' object is not iterable''))
           | Some cols \<Rightarrow> Inr (map column_name cols)))"

subsection \<open>The cache and the operation\<close>

text \<open>
  \<open>_sql_cache\<close> maps the trimmed query text to the pair (cached_at, rows).
  \<open>statements_run\<close> records every statement handed to
  \<open>ws.statement_execution.execute_statement\<close>, in order: it is the observable
  effect on the warehouse, kept so that "the backing query runs" can be counted.
  Timestamps are the values of \<open>time.time()\<close>, taken as reals.
\<close>

record sql_state =
  sql_cache :: "string \<rightharpoonup> real \<times> row list"
  statements_run :: "string list"

record app_config =
  warehouse_id :: string
  chat_model :: string

text \<open>
  The workspace client is the function \<open>ws warehouse_id statement\<close>; it may raise.
\<close>

type_synonym workspace_client = "string \<Rightarrow> string \<Rightarrow> exn + statement_response"

definition SQL_CACHE_TTL :: int where
  "SQL_CACHE_TTL = 300"

text \<open>
  The test at the top of \<open>execute_sql\<close>: the rows of the entry under \<open>cache_key\<close>
  when there is one and \<open>now - cached_at < ttl\<close>.
\<close>

definition cache_lookup :: "sql_state \<Rightarrow> string \<Rightarrow> int \<Rightarrow> real \<Rightarrow> row list option" where
  "cache_lookup s cache_key ttl now =
     (case sql_cache s cache_key of
        None \<Rightarrow> None
      | Some (cached_at, cached_rows) \<Rightarrow>
          if now - cached_at < real_of_int ttl then Some cached_rows else None)"

definition execute_sql ::
  "workspace_client \<Rightarrow> app_config \<Rightarrow> string \<Rightarrow> int \<Rightarrow> real \<Rightarrow> sql_state
     \<Rightarrow> (exn + row list) \<times> sql_state" where
  "execute_sql ws config query ttl now s =
     (let cache_key = strip query in
      case cache_lookup s cache_key ttl now of
        Some cached_rows \<Rightarrow> (Inr cached_rows, s)
      | None \<Rightarrow>
          (let s1 = s\<lparr>statements_run := statements_run s @ [query]\<rparr> in
           case ws (warehouse_id config) query of
             Inl e \<Rightarrow> (Inl e, s1)
           | Inr response \<Rightarrow>
               if response_state response \<noteq> State (Some SUCCEEDED) then (Inr [], s1)
               else
                 (case result_rows response of
                    Some (m, arr) \<Rightarrow>
                      (case column_names m of
                         Inl e \<Rightarrow> (Inl e, s1)
                       | Inr columns \<Rightarrow>
                           (let rows = map (dict_zip columns) arr in
                            (Inr rows,
                             s1\<lparr>sql_cache := (sql_cache s1)(cache_key \<mapsto> (now, rows))\<rparr>)))
                  | None \<Rightarrow>
                      (Inr [], s1\<lparr>sql_cache := (sql_cache s1)(cache_key \<mapsto> (now, []))\<rparr>))))"


section \<open>The chat task store (router.py)\<close>

subsection \<open>Decoded JSON\<close>

text \<open>
  The value of \<open>resp.json()\<close>. \<open>JObj\<close> is a decoded dict, given by its items (the
  decoder has already resolved repeated keys, so the keys are distinct).
\<close>

datatype json =
    JNull
  | JBool bool
  | JInt int
  | JFloat real
  | JStr string
  | JArr "json list"
  | JObj "(string \<times> json) list"

fun type_name :: "json \<Rightarrow> string" where
  "type_name JNull = ''NoneType''"
| "type_name (JBool b) = ''bool''"
| "type_name (JInt i) = ''int''"
| "type_name (JFloat x) = ''float''"
| "type_name (JStr s) = ''str''"
| "type_name (JArr xs) = ''list''"
| "type_name (JObj kvs) = ''dict''"

text \<open>\<open>v.get(key, default)\<close>: only a dict has the method.\<close>

fun py_get :: "json \<Rightarrow> string \<Rightarrow> json \<Rightarrow> exn + json" where
  "py_get (JObj kvs) key dflt = Inr (case map_of kvs key of Some v \<Rightarrow> v | None \<Rightarrow> dflt)"
| "py_get v key dflt = Inl (AttributeError (type_name v) ''get'')"

text \<open>
  \<open>reversed(v)\<close>: a list gives its elements, a str its characters, a dict its keys,
  each from the end; anything else is not reversible.
\<close>

fun py_reversed :: "json \<Rightarrow> exn + json list" where
  "py_reversed (JArr xs) = Inr (rev xs)"
| "py_reversed (JStr s) = Inr (map (\<lambda>c. JStr [c]) (rev s))"
| "py_reversed (JObj kvs) = Inr (map (\<lambda>kv. JStr (fst kv)) (rev kvs))"
| "py_reversed v = Inl (TypeError (squote @ type_name v @ squote @ '' object is not reversible''))"

subsection \<open>The registry\<close>

text \<open>
  \<open>_chat_tasks\<close> maps a task id to a dict with the keys "status" and "response" and,
  when the submitter wrote it, "created_at". Every write replaces the whole dict.
\<close>

record task_entry =
  status :: string
  response :: string
  created_at :: "real option"

type_synonym chat_tasks = "string \<rightharpoonup> task_entry"

text \<open>The response model \<open>ChatTaskOut(task_id, status, response)\<close>.\<close>

record chat_task_out =
  out_task_id :: string
  out_status :: string
  out_response :: string

text \<open>\<open>v.get("created_at", 0)\<close>.\<close>

definition get_created_at :: "task_entry \<Rightarrow> real" where
  "get_created_at v = (case created_at v of Some t \<Rightarrow> t | None \<Rightarrow> 0)"

text \<open>
  \<open>_cleanup_old_tasks\<close>: the keys whose entry satisfies
  \<open>now - v.get("created_at", 0) > 300\<close> are collected, then popped.
\<close>

definition cleanup_old_tasks :: "real \<Rightarrow> chat_tasks \<Rightarrow> chat_tasks" where
  "cleanup_old_tasks now tasks =
     (\<lambda>k. case tasks k of
            None \<Rightarrow> None
          | Some v \<Rightarrow> if now - get_created_at v > 300 then None else Some v)"

subsection \<open>The worker\<close>

record http_response =
  status_code :: int
  body_text :: string
  body_json :: "exn + json"

type_synonym headers = "(string \<times> string) list"

record chat_message =
  role :: string
  content :: string

text \<open>
  \<open>httpx.post(url, json={"input": messages}, headers=...)\<close>: the response, or the
  exception of a failed or timed-out call. \<open>body_json\<close> is what \<open>resp.json()\<close>
  gives: the decoded value, or the decoder's exception. \<open>body_text\<close> is read by the
  error log only; the logger calls are left out throughout, they touch neither map.
\<close>

type_synonym http_client = "string \<Rightarrow> chat_message list \<Rightarrow> headers \<Rightarrow> exn + http_response"

text \<open>
  The inner loop over \<open>content_list\<close>: the text of the first element of type
  "output_text" whose text is not blank, or the unchanged empty \<open>text\<close>.
\<close>

fun scan_content :: "json list \<Rightarrow> exn + string" where
  "scan_content [] = Inr []"
| "scan_content (c # cs) =
     (case py_get c ''type'' JNull of
        Inl e \<Rightarrow> Inl e
      | Inr ty \<Rightarrow>
          if ty = JStr ''output_text'' then
            (case py_get c ''text'' (JStr []) of
               Inl e \<Rightarrow> Inl e
             | Inr (JStr s) \<Rightarrow> if strip s \<noteq> [] then Inr s else scan_content cs
             | Inr t \<Rightarrow> Inl (AttributeError (type_name t) ''strip''))
          else scan_content cs)"

text \<open>The outer loop, over the items of \<open>reversed(output)\<close>.\<close>

fun scan_items :: "json list \<Rightarrow> exn + string" where
  "scan_items [] = Inr []"
| "scan_items (item # items) =
     (case py_get item ''type'' JNull of
        Inl e \<Rightarrow> Inl e
      | Inr ty \<Rightarrow>
          if ty = JStr ''message'' \<and> py_get item ''role'' JNull = Inr (JStr ''assistant'') then
            (case py_get item ''content'' (JArr []) of
               Inr (JArr content_list) \<Rightarrow>
                 (case scan_content content_list of
                    Inl e \<Rightarrow> Inl e
                  | Inr text \<Rightarrow> if text \<noteq> [] then Inr text else scan_items items)
             | _ \<Rightarrow> scan_items items)
          else scan_items items)"

definition final_text :: "json \<Rightarrow> exn + string" where
  "final_text data =
     (case py_get data ''output'' (JArr []) of
        Inl e \<Rightarrow> Inl e
      | Inr output \<Rightarrow>
          (case py_reversed output of
             Inl e \<Rightarrow> Inl e
           | Inr items \<Rightarrow> scan_items items))"

text \<open>The body of the \<open>try\<close> block of \<open>_run_mas_task\<close>.\<close>

definition run_mas_try ::
  "http_client \<Rightarrow> string \<Rightarrow> chat_message list \<Rightarrow> string \<Rightarrow> string \<Rightarrow> headers \<Rightarrow> chat_tasks
     \<Rightarrow> exn + chat_tasks" where
  "run_mas_try post task_id messages host model auth_headers tasks =
     (let url = host @ ''/serving-endpoints/'' @ model @ ''/invocations'' in
      case post url messages (AList.update ''Content-Type'' ''application/json'' auth_headers) of
        Inl e \<Rightarrow> Inl e
      | Inr resp \<Rightarrow>
          if status_code resp \<noteq> 200 then
            Inr (tasks(task_id \<mapsto>
                   \<lparr>status = ''error'',
                    response = ''MAS returned '' @ str_int (status_code resp),
                    created_at = None\<rparr>))
          else
            (case body_json resp of
               Inl e \<Rightarrow> Inl e
             | Inr data \<Rightarrow>
                 (case final_text data of
                    Inl e \<Rightarrow> Inl e
                  | Inr text \<Rightarrow>
                      Inr (tasks(task_id \<mapsto>
                             \<lparr>status = ''done'', response = text, created_at = None\<rparr>)))))"

text \<open>
  \<open>_run_mas_task\<close> makes two writes to the registry, and other threads run between
  them: \<open>run_mas_enter\<close> is the write of "running" on entry, \<open>run_mas_finish\<close> is the
  \<open>try\<close> block with its \<open>except Exception\<close> handler. Neither has a raising branch.
\<close>

definition run_mas_enter :: "string \<Rightarrow> chat_tasks \<Rightarrow> chat_tasks" where
  "run_mas_enter task_id tasks =
     tasks(task_id \<mapsto> \<lparr>status = ''running'', response = [], created_at = None\<rparr>)"

definition run_mas_finish ::
  "http_client \<Rightarrow> string \<Rightarrow> chat_message list \<Rightarrow> string \<Rightarrow> string \<Rightarrow> headers \<Rightarrow> chat_tasks
     \<Rightarrow> chat_tasks" where
  "run_mas_finish post task_id messages host model auth_headers tasks =
     (case run_mas_try post task_id messages host model auth_headers tasks of
        Inr tasks' \<Rightarrow> tasks'
      | Inl e \<Rightarrow>
          tasks(task_id \<mapsto> \<lparr>status = ''error'', response = str_exn e, created_at = None\<rparr>))"

definition run_mas_task ::
  "http_client \<Rightarrow> string \<Rightarrow> chat_message list \<Rightarrow> string \<Rightarrow> string \<Rightarrow> headers \<Rightarrow> chat_tasks
     \<Rightarrow> chat_tasks" where
  "run_mas_task post task_id messages host model auth_headers tasks =
     run_mas_finish post task_id messages host model auth_headers (run_mas_enter task_id tasks)"

subsection \<open>The endpoints\<close>

text \<open>
  The submitter's own writes in \<open>start_chat\<close>, after \<open>thread.start()\<close>: the sweep,
  then the "pending" entry. \<open>task_id\<close> is the fresh uuid, \<open>now\<close> the clock read by
  the sweep and \<open>now'\<close> the one stored as created_at. What precedes the thread start
  (the uuid, \<open>ws.config.authenticate()\<close>, the message dicts) does not touch the registry.
\<close>

definition register_pending :: "string \<Rightarrow> real \<Rightarrow> chat_tasks \<Rightarrow> chat_tasks" where
  "register_pending task_id now tasks =
     tasks(task_id \<mapsto> \<lparr>status = ''pending'', response = [], created_at = Some now\<rparr>)"

definition start_chat :: "string \<Rightarrow> real \<Rightarrow> real \<Rightarrow> chat_tasks \<Rightarrow> chat_task_out \<times> chat_tasks" where
  "start_chat task_id now now' tasks =
     (\<lparr>out_task_id = task_id, out_status = ''pending'', out_response = []\<rparr>,
      register_pending task_id now' (cleanup_old_tasks now tasks))"

text \<open>
  \<open>poll_chat\<close> reads the registry with \<open>_chat_tasks.get(task_id)\<close>; the registry it
  leaves behind is returned with the payload. It has no raising branch: an entry always
  carries both keys it reads.
\<close>

definition poll_chat :: "string \<Rightarrow> chat_tasks \<Rightarrow> chat_task_out \<times> chat_tasks" where
  "poll_chat task_id tasks =
     (case tasks task_id of
        None \<Rightarrow>
          (\<lparr>out_task_id = task_id, out_status = ''error'', out_response = ''Task not found''\<rparr>,
           tasks)
      | Some task \<Rightarrow>
          (\<lparr>out_task_id = task_id, out_status = status task, out_response = response task\<rparr>,
           tasks))"

subsection \<open>Submitter and worker as two threads\<close>

text \<open>
  \<open>start_chat\<close> starts the worker thread first and only then sweeps and writes the
  "pending" entry, so the two writes of the worker and the two of the submitter can
  interleave. Each thread is a program counter over its registry writes; a step is one
  write, atomic on the shared dict. \<open>chat_run\<close> holds what one call of \<open>start_chat\<close>
  fixes: the uuid and the arguments handed to the thread.
\<close>

datatype submit_pc = At_thread_start | At_cleanup | At_register | Returned

datatype worker_pc = Not_started | At_enter | At_call | Finished

datatype thread = Submitter | Worker

record chat_run =
  run_task_id :: string
  run_messages :: "chat_message list"
  run_host :: string
  run_model :: string
  run_auth_headers :: headers
  run_post :: http_client

record chat_system =
  registry :: chat_tasks
  submit_at :: submit_pc
  worker_at :: worker_pc

text \<open>
  One step of a thread at clock value \<open>now\<close>; \<open>None\<close> when the thread cannot move
  (the worker before \<open>thread.start()\<close>, either thread after its last statement).
\<close>

fun step :: "chat_run \<Rightarrow> thread \<Rightarrow> real \<Rightarrow> chat_system \<Rightarrow> chat_system option" where
  "step R Submitter now c =
     (case submit_at c of
        At_thread_start \<Rightarrow> Some (c\<lparr>submit_at := At_cleanup, worker_at := At_enter\<rparr>)
      | At_cleanup \<Rightarrow>
          Some (c\<lparr>registry := cleanup_old_tasks now (registry c), submit_at := At_register\<rparr>)
      | At_register \<Rightarrow>
          Some (c\<lparr>registry := register_pending (run_task_id R) now (registry c),
                  submit_at := Returned\<rparr>)
      | Returned \<Rightarrow> None)"
| "step R Worker now c =
     (case worker_at c of
        Not_started \<Rightarrow> None
      | At_enter \<Rightarrow>
          Some (c\<lparr>registry := run_mas_enter (run_task_id R) (registry c), worker_at := At_call\<rparr>)
      | At_call \<Rightarrow>
          Some (c\<lparr>registry :=
                    run_mas_finish (run_post R) (run_task_id R) (run_messages R) (run_host R)
                      (run_model R) (run_auth_headers R) (registry c),
                  worker_at := Finished\<rparr>)
      | Finished \<Rightarrow> None)"

definition initial_system :: "chat_tasks \<Rightarrow> chat_system" where
  "initial_system tasks =
     \<lparr>registry = tasks, submit_at = At_thread_start, worker_at = Not_started\<rparr>"

text \<open>
  A schedule names the thread that moves next and the clock at that moment.
  \<open>status_trace\<close> lists the status held by the task's registry entry (\<open>None\<close> when
  there is no entry) after each step of the schedule, followed by the system the schedule
  ends in; it stops at a step that cannot be taken.
\<close>

fun status_trace ::
  "chat_run \<Rightarrow> (thread \<times> real) list \<Rightarrow> chat_system \<Rightarrow> string option list \<times> chat_system" where
  "status_trace R [] c = ([], c)"
| "status_trace R ((th, now) # rest) c =
     (case step R th now c of
        None \<Rightarrow> ([], c)
      | Some c' \<Rightarrow>
          (let (seen, final) = status_trace R rest c'
           in (map_option status (registry c' (run_task_id R)) # seen, final)))"

subsection \<open>The final answer, stated on the payload\<close>

text \<open>
  An output item is an assistant message when its type is "message" and its role is
  "assistant". \<open>text_contents ok item\<close> lists, in order, the texts of the
  "output_text" elements of such an item's content list that \<open>ok\<close> accepts.
  \<open>last_answer ok output\<close> is the first of these texts in the last item of \<open>output\<close>
  that has any, and the empty string when no item has one.
\<close>

definition is_assistant_message :: "json \<Rightarrow> bool" where
  "is_assistant_message item =
     (py_get item ''type'' JNull = Inr (JStr ''message'') \<and>
      py_get item ''role'' JNull = Inr (JStr ''assistant''))"

definition content_text :: "(string \<Rightarrow> bool) \<Rightarrow> json \<Rightarrow> string option" where
  "content_text ok c =
     (if py_get c ''type'' JNull = Inr (JStr ''output_text'') then
        (case py_get c ''text'' (JStr []) of
           Inr (JStr s) \<Rightarrow> if ok s then Some s else None
         | _ \<Rightarrow> None)
      else None)"

definition text_contents :: "(string \<Rightarrow> bool) \<Rightarrow> json \<Rightarrow> string list" where
  "text_contents ok item =
     (if is_assistant_message item then
        (case py_get item ''content'' (JArr []) of
           Inr (JArr cs) \<Rightarrow> List.map_filter (content_text ok) cs
         | _ \<Rightarrow> [])
      else [])"

definition last_answer :: "(string \<Rightarrow> bool) \<Rightarrow> json list \<Rightarrow> string" where
  "last_answer ok output =
     (case filter (\<lambda>item. text_contents ok item \<noteq> []) (rev output) of
        [] \<Rightarrow> []
      | item # _ \<Rightarrow> hd (text_contents ok item))"

definition non_empty :: "string \<Rightarrow> bool" where
  "non_empty s = (s \<noteq> [])"

definition non_blank :: "string \<Rightarrow> bool" where
  "non_blank s = (strip s \<noteq> [])"

text \<open>
  A payload is well typed when every output item is an object, every element of an
  assistant message's content list is an object, and the text of every "output_text"
  element is a string.
\<close>

definition well_typed_content :: "json \<Rightarrow> bool" where
  "well_typed_content c =
     (case c of
        JObj kvs \<Rightarrow>
          (if map_of kvs ''type'' = Some (JStr ''output_text'') then
             (case map_of kvs ''text'' of
                None \<Rightarrow> True
              | Some (JStr s) \<Rightarrow> True
              | Some _ \<Rightarrow> False)
           else True)
      | _ \<Rightarrow> False)"

definition well_typed_item :: "json \<Rightarrow> bool" where
  "well_typed_item item =
     (case item of
        JObj kvs \<Rightarrow>
          (if is_assistant_message item then
             (case map_of kvs ''content'' of
                Some (JArr cs) \<Rightarrow> list_all well_typed_content cs
              | _ \<Rightarrow> True)
           else True)
      | _ \<Rightarrow> False)"

subsection \<open>Sample inputs\<close>

definition sample_config :: app_config where
  "sample_config =
     \<lparr>warehouse_id = ''b9771bcf4a3a5399'', chat_model = ''mas-5fba20e2-endpoint''\<rparr>"

definition succeeded_status :: statement_status where
  "succeeded_status = \<lparr>status_state = Some SUCCEEDED, status_error = None\<rparr>"

definition one_column_manifest :: result_manifest where
  "one_column_manifest =
     \<lparr>manifest_schema = Some \<lparr>schema_columns = Some [\<lparr>column_name = Some ''n''\<rparr>]\<rparr>\<rparr>"

definition one_row_response :: statement_response where
  "one_row_response =
     \<lparr>response_status = Some succeeded_status,
      response_manifest = Some one_column_manifest,
      response_result = Some \<lparr>data_array = Some [[Some ''1'']]\<rparr>\<rparr>"

definition two_row_response :: statement_response where
  "two_row_response =
     \<lparr>response_status = Some succeeded_status,
      response_manifest = Some one_column_manifest,
      response_result = Some \<lparr>data_array = Some [[Some ''1''], [Some ''2'']]\<rparr>\<rparr>"

definition zero_row_response :: statement_response where
  "zero_row_response =
     \<lparr>response_status = Some succeeded_status,
      response_manifest = Some one_column_manifest,
      response_result = Some \<lparr>data_array = None\<rparr>\<rparr>"

definition failed_response :: statement_response where
  "failed_response =
     \<lparr>response_status =
        Some \<lparr>status_state = Some FAILED,
              status_error = Some \<lparr>error_message = Some ''warehouse stopped''\<rparr>\<rparr>,
      response_manifest = None,
      response_result = None\<rparr>"

definition empty_sql_state :: sql_state where
  "empty_sql_state = \<lparr>sql_cache = Map.empty, statements_run = []\<rparr>"

definition one_entry_sql_state :: sql_state where
  "one_entry_sql_state =
     \<lparr>sql_cache = [''SELECT 1'' \<mapsto> (1000, [[(Some ''n'', Some ''1'')]])],
      statements_run = [''SELECT 1'']\<rparr>"

definition sample_messages :: "chat_message list" where
  "sample_messages = [\<lparr>role = ''user'', content = ''status?''\<rparr>]"

definition assistant_message :: "string \<Rightarrow> json" where
  "assistant_message s =
     JObj [(''type'', JStr ''message''), (''role'', JStr ''assistant''),
           (''content'', JArr [JObj [(''type'', JStr ''output_text''), (''text'', JStr s)]])]"

definition units_output :: "json list" where
  "units_output =
     [JObj [(''type'', JStr ''reasoning'')],
      assistant_message ''checking stock'',
      JObj [(''type'', JStr ''function_call''), (''name'', JStr ''inventory'')],
      assistant_message ''42 units'']"

definition blank_output :: "json list" where
  "blank_output = [assistant_message ''42 units'', assistant_message '' '']"

definition ok_response :: "json list \<Rightarrow> http_response" where
  "ok_response output =
     \<lparr>status_code = 200, body_text = [], body_json = Inr (JObj [(''output'', JArr output)])\<rparr>"

definition unavailable_response :: http_response where
  "unavailable_response =
     \<lparr>status_code = 503, body_text = ''Service Unavailable'',
      body_json = Inl (Raised ''Expecting value: line 1 column 1 (char 0)'')\<rparr>"

definition post_returning :: "http_response \<Rightarrow> http_client" where
  "post_returning resp url msgs hs = Inr resp"

definition refused_run :: chat_run where
  "refused_run =
     \<lparr>run_task_id = ''a'', run_messages = sample_messages, run_host = ''https://host'',
      run_model = ''mas-5fba20e2-endpoint'', run_auth_headers = [(''Authorization'', ''Bearer t'')],
      run_post = (\<lambda>url msgs hs. Inl (Raised ''[Errno 111] Connection refused''))\<rparr>"

section \<open>Properties of the SQL cache\<close>

lemma strip_select_1:
  "strip '' SELECT 1 '' = ''SELECT 1''" "strip ''SELECT 1'' = ''SELECT 1''"
  by (simp_all add: strip_def is_space_def)

lemma execute_sql_hit:
  "cache_lookup s (strip q) ttl now = Some rows \<Longrightarrow>
     execute_sql ws config q ttl now s = (Inr rows, s)"
  by (simp add: execute_sql_def)

lemma execute_sql_miss_success:
  assumes miss: "cache_lookup s (strip q) ttl now = None"
      and resp: "ws (warehouse_id config) q = Inr r"
      and succ: "response_state r = State (Some SUCCEEDED)"
      and ok: "execute_sql ws config q ttl now s = (Inr rows, s1)"
  shows "s1 = s\<lparr>statements_run := statements_run s @ [q],
                sql_cache := (sql_cache s)(strip q \<mapsto> (now, rows))\<rparr>"
  using ok miss resp succ
  by (auto simp: execute_sql_def Let_def split: option.splits sum.splits prod.splits)

lemma execute_sql_miss_run:
  "cache_lookup s (strip q) ttl now = None \<Longrightarrow>
     statements_run (snd (execute_sql ws config q ttl now s)) = statements_run s @ [q]"
  by (simp add: execute_sql_def Let_def split: option.splits sum.splits prod.splits)

lemma execute_sql_miss_result:
  "cache_lookup s (strip q) ttl now = None \<Longrightarrow> cache_lookup s' (strip q) ttl now = None \<Longrightarrow>
     fst (execute_sql ws config q ttl now s) = fst (execute_sql ws config q ttl now s')"
  by (simp add: execute_sql_def Let_def split: option.splits sum.splits prod.splits)

lemma one_row_run:
  "execute_sql (\<lambda>w q. Inr one_row_response) sample_config ''SELECT 1'' 300 1000 empty_sql_state
     = (Inr [[(Some ''n'', Some ''1'')]], one_entry_sql_state)"
  by (simp add: execute_sql_def cache_lookup_def empty_sql_state_def one_row_response_def
      strip_select_1 response_state_def succeeded_status_def result_rows_def column_names_def
      one_column_manifest_def dict_zip_def one_entry_sql_state_def Let_def)

text \<open>
  C1. Let a call with query \<open>q\<close> at time \<open>now\<close> find no fresh entry, run the backing
  statement, get a SUCCEEDED response and return \<open>rows\<close>, leaving the state \<open>s1\<close>. Then
  any next call whose query has the same trimmed text, made at a time \<open>now'\<close> with
  \<open>now' - now < ttl'\<close>, returns the same \<open>rows\<close> and leaves \<open>s1\<close> untouched, whatever
  the warehouse would answer: over the two calls the statement log grew by exactly the one
  entry \<open>q\<close>. The ttl need not be positive for this, nor the same in both calls.
\<close>

theorem second_call_within_ttl_is_served_from_cache:
  assumes miss: "cache_lookup s (strip q) ttl now = None"
      and resp: "ws (warehouse_id config) q = Inr r"
      and succ: "response_state r = State (Some SUCCEEDED)"
      and ok: "execute_sql ws config q ttl now s = (Inr rows, s1)"
      and same: "strip q' = strip q"
      and fresh: "now' - now < real_of_int ttl'"
  shows "execute_sql ws' config' q' ttl' now' s1 = (Inr rows, s1) \<and>
         statements_run s1 = statements_run s @ [q]"
proof -
  have s1: "s1 = s\<lparr>statements_run := statements_run s @ [q],
                    sql_cache := (sql_cache s)(strip q \<mapsto> (now, rows))\<rparr>"
    using execute_sql_miss_success [OF miss resp succ ok] .
  have "cache_lookup s1 (strip q') ttl' now' = Some rows"
    using fresh by (simp add: s1 same cache_lookup_def)
  then show ?thesis
    by (simp add: execute_sql_hit s1)
qed

theorem second_call_within_ttl_witness:
  "execute_sql (\<lambda>w q. Inl (Raised ''offline'')) sample_config '' SELECT 1 '' 300 1001
       one_entry_sql_state
     = (Inr [[(Some ''n'', Some ''1'')]], one_entry_sql_state)
   \<and> statements_run one_entry_sql_state = [''SELECT 1'']"
proof -
  have miss: "cache_lookup empty_sql_state (strip ''SELECT 1'') 300 1000 = None"
    by (simp add: cache_lookup_def empty_sql_state_def)
  have resp: "(\<lambda>w q. Inr one_row_response) (warehouse_id sample_config) ''SELECT 1''
                = Inr one_row_response"
    by simp
  have succ: "response_state one_row_response = State (Some SUCCEEDED)"
    by (simp add: response_state_def one_row_response_def succeeded_status_def)
  have same: "strip '' SELECT 1 '' = strip ''SELECT 1''"
    by (simp add: strip_select_1)
  have fresh: "(1001::real) - 1000 < real_of_int 300"
    by simp
  show ?thesis
    using second_call_within_ttl_is_served_from_cache
            [where ws = "\<lambda>w q. Inr one_row_response" and config = sample_config
               and ws' = "\<lambda>w q. Inl (Raised ''offline'')" and config' = sample_config,
             OF miss resp succ one_row_run same fresh]
    by (simp add: empty_sql_state_def)
qed

text \<open>
  C2. When the call consults the warehouse (no fresh entry for the key) and the response's
  state is anything but SUCCEEDED, \<open>execute_sql\<close> returns the empty list as a normal
  result, and the only change to the state is the statement log: the cache map is the one
  from before the call. In particular an entry stored earlier under the same key is still
  there, and a later call for which it is fresh returns its rows.
\<close>

theorem failed_execution_returns_empty_and_keeps_cache:
  assumes resp: "ws (warehouse_id config) q = Inr r"
      and failed: "response_state r \<noteq> State (Some SUCCEEDED)"
      and consulted: "cache_lookup s (strip q) ttl now = None"
  shows "execute_sql ws config q ttl now s
           = (Inr [], s\<lparr>statements_run := statements_run s @ [q]\<rparr>) \<and>
         sql_cache (snd (execute_sql ws config q ttl now s)) = sql_cache s \<and>
         (\<forall>t0 rows0 ws' config' q' ttl' now'.
             sql_cache s (strip q) = Some (t0, rows0) \<longrightarrow> strip q' = strip q \<longrightarrow>
             now' - t0 < real_of_int ttl' \<longrightarrow>
             fst (execute_sql ws' config' q' ttl' now' (snd (execute_sql ws config q ttl now s)))
               = Inr rows0)"
proof -
  let ?s1 = "s\<lparr>statements_run := statements_run s @ [q]\<rparr>"
  have run: "execute_sql ws config q ttl now s = (Inr [], ?s1)"
    using resp failed consulted by (simp add: execute_sql_def)
  have served: "fst (execute_sql ws' config' q' ttl' now' ?s1) = Inr rows0"
    if "sql_cache s (strip q) = Some (t0, rows0)" "strip q' = strip q"
       "now' - t0 < real_of_int ttl'"
    for t0 rows0 ws' config' q' ttl' now'
  proof -
    have "cache_lookup ?s1 (strip q') ttl' now' = Some rows0"
      using that by (simp add: cache_lookup_def)
    then show ?thesis by (simp add: execute_sql_hit)
  qed
  show ?thesis
    using served by (simp add: run)
qed

theorem failed_execution_witness:
  "execute_sql (\<lambda>w q. Inr failed_response) sample_config ''SELECT 1'' 300 1300
       one_entry_sql_state
     = (Inr [], one_entry_sql_state\<lparr>statements_run := [''SELECT 1'', ''SELECT 1'']\<rparr>)
   \<and> fst (execute_sql (\<lambda>w q. Inr failed_response) sample_config '' SELECT 1 '' 600 1301
        (snd (execute_sql (\<lambda>w q. Inr failed_response) sample_config ''SELECT 1'' 300 1300
                one_entry_sql_state)))
     = Inr [[(Some ''n'', Some ''1'')]]"
proof -
  have resp: "(\<lambda>w q. Inr failed_response) (warehouse_id sample_config) ''SELECT 1''
                = Inr failed_response"
    by simp
  have failed: "response_state failed_response \<noteq> State (Some SUCCEEDED)"
    by (simp add: response_state_def failed_response_def)
  have consulted: "cache_lookup one_entry_sql_state (strip ''SELECT 1'') 300 1300 = None"
    by (simp add: cache_lookup_def one_entry_sql_state_def strip_select_1)
  have entry: "sql_cache one_entry_sql_state (strip ''SELECT 1'')
                 = Some (1000, [[(Some ''n'', Some ''1'')]])"
    by (simp add: one_entry_sql_state_def strip_select_1)
  have same: "strip '' SELECT 1 '' = strip ''SELECT 1''"
    by (simp add: strip_select_1)
  have fresh: "(1301::real) - 1000 < real_of_int 600"
    by simp
  note kept = failed_execution_returns_empty_and_keeps_cache
                [where ws = "\<lambda>w q. Inr failed_response" and config = sample_config,
                 OF resp failed consulted]
  have run: "execute_sql (\<lambda>w q. Inr failed_response) sample_config ''SELECT 1'' 300 1300
               one_entry_sql_state
             = (Inr [], one_entry_sql_state\<lparr>statements_run := [''SELECT 1'', ''SELECT 1'']\<rparr>)"
    using conjunct1 [OF kept] by (simp add: one_entry_sql_state_def)
  have served:
    "fst (execute_sql (\<lambda>w q. Inr failed_response) sample_config '' SELECT 1 '' 600 1301
        (snd (execute_sql (\<lambda>w q. Inr failed_response) sample_config ''SELECT 1'' 300 1300
                one_entry_sql_state)))
     = Inr [[(Some ''n'', Some ''1'')]]"
    using conjunct2 [OF conjunct2 [OF kept], rule_format, OF entry same fresh] .
  show ?thesis
    using run served by simp
qed

text \<open>
  C8. If the key has an entry stamped \<open>t0\<close> and \<open>now - t0\<close> has reached \<open>ttl\<close>, the call
  hands the query to the warehouse again (the statement log grows by \<open>q\<close>) and its result
  is the one it would compute with an empty cache: the stored rows play no part.
\<close>

theorem expired_entry_is_executed_again:
  assumes entry: "sql_cache s (strip q) = Some (t0, rows0)"
      and elapsed: "real_of_int ttl \<le> now - t0"
  shows "statements_run (snd (execute_sql ws config q ttl now s)) = statements_run s @ [q] \<and>
         fst (execute_sql ws config q ttl now s) =
           fst (execute_sql ws config q ttl now (s\<lparr>sql_cache := Map.empty\<rparr>))"
proof -
  have stale: "cache_lookup s (strip q) ttl now = None"
    using entry elapsed by (simp add: cache_lookup_def)
  have empty: "cache_lookup (s\<lparr>sql_cache := Map.empty\<rparr>) (strip q) ttl now = None"
    by (simp add: cache_lookup_def)
  show ?thesis
    using execute_sql_miss_run [OF stale] execute_sql_miss_result [OF stale empty] by simp
qed

theorem expired_entry_witness:
  "statements_run
     (snd (execute_sql (\<lambda>w q. Inr two_row_response) sample_config '' SELECT 1 '' 300 1300
             one_entry_sql_state)) = [''SELECT 1'', '' SELECT 1 ''] \<and>
   fst (execute_sql (\<lambda>w q. Inr two_row_response) sample_config '' SELECT 1 '' 300 1300
          one_entry_sql_state) = Inr [[(Some ''n'', Some ''1'')], [(Some ''n'', Some ''2'')]]"
proof -
  have entry: "sql_cache one_entry_sql_state (strip '' SELECT 1 '')
                 = Some (1000, [[(Some ''n'', Some ''1'')]])"
    by (simp add: one_entry_sql_state_def strip_select_1)
  have elapsed: "real_of_int 300 \<le> (1300::real) - 1000"
    by simp
  have fresh_run:
    "fst (execute_sql (\<lambda>w q. Inr two_row_response) sample_config '' SELECT 1 '' 300 1300
          (one_entry_sql_state\<lparr>sql_cache := Map.empty\<rparr>))
        = Inr [[(Some ''n'', Some ''1'')], [(Some ''n'', Some ''2'')]]"
    by (simp add: execute_sql_def cache_lookup_def two_row_response_def response_state_def
        succeeded_status_def result_rows_def column_names_def one_column_manifest_def
        dict_zip_def Let_def)
  show ?thesis
    using expired_entry_is_executed_again
            [OF entry elapsed, of "\<lambda>w q. Inr two_row_response" sample_config] fresh_run
    by (simp add: one_entry_sql_state_def)
qed

text \<open>
  C9. When the warehouse is consulted, answers SUCCEEDED and the response carries no data
  rows (no manifest, no result, or a missing or empty data array), \<open>execute_sql\<close> returns
  the empty list and stores the entry \<open>(now, [])\<close> under the trimmed query. A next call
  with the same trimmed text at a time \<open>now'\<close> with \<open>now' - now < ttl'\<close> returns the
  empty list again and changes nothing, the statement log included.
\<close>

theorem zero_rows_are_cached:
  assumes miss: "cache_lookup s (strip q) ttl now = None"
      and resp: "ws (warehouse_id config) q = Inr r"
      and succ: "response_state r = State (Some SUCCEEDED)"
      and zero: "result_rows r = None"
  shows "execute_sql ws config q ttl now s =
           (Inr [], s\<lparr>statements_run := statements_run s @ [q],
                       sql_cache := (sql_cache s)(strip q \<mapsto> (now, []))\<rparr>) \<and>
         (\<forall>ws' config' q' ttl' now'.
             strip q' = strip q \<longrightarrow> now' - now < real_of_int ttl' \<longrightarrow>
             execute_sql ws' config' q' ttl' now' (snd (execute_sql ws config q ttl now s)) =
               (Inr [], snd (execute_sql ws config q ttl now s)))"
proof -
  let ?s1 = "s\<lparr>statements_run := statements_run s @ [q],
                sql_cache := (sql_cache s)(strip q \<mapsto> (now, []))\<rparr>"
  have run: "execute_sql ws config q ttl now s = (Inr [], ?s1)"
    using miss resp succ zero by (simp add: execute_sql_def)
  have again: "execute_sql ws' config' q' ttl' now' ?s1 = (Inr [], ?s1)"
    if "strip q' = strip q" "now' - now < real_of_int ttl'" for ws' config' q' ttl' now'
  proof -
    have "cache_lookup ?s1 (strip q') ttl' now' = Some []"
      using that by (simp add: cache_lookup_def)
    then show ?thesis by (rule execute_sql_hit)
  qed
  show ?thesis
    using again by (simp add: run)
qed

theorem zero_rows_witness:
  "execute_sql (\<lambda>w q. Inr zero_row_response) sample_config ''SELECT 1'' 300 1000 empty_sql_state =
     (Inr [], \<lparr>sql_cache = [''SELECT 1'' \<mapsto> (1000, [])], statements_run = [''SELECT 1'']\<rparr>) \<and>
   execute_sql (\<lambda>w q. Inr one_row_response) sample_config '' SELECT 1 '' 300 1299
     \<lparr>sql_cache = [''SELECT 1'' \<mapsto> (1000, [])], statements_run = [''SELECT 1'']\<rparr> =
     (Inr [], \<lparr>sql_cache = [''SELECT 1'' \<mapsto> (1000, [])], statements_run = [''SELECT 1'']\<rparr>)"
proof -
  have miss: "cache_lookup empty_sql_state (strip ''SELECT 1'') 300 1000 = None"
    by (simp add: cache_lookup_def empty_sql_state_def)
  have resp: "(\<lambda>w q. Inr zero_row_response) (warehouse_id sample_config) ''SELECT 1''
                = Inr zero_row_response"
    by simp
  have succ: "response_state zero_row_response = State (Some SUCCEEDED)"
    by (simp add: response_state_def zero_row_response_def succeeded_status_def)
  have zero: "result_rows zero_row_response = None"
    by (simp add: result_rows_def zero_row_response_def)
  have same: "strip '' SELECT 1 '' = strip ''SELECT 1''"
    by (simp add: strip_select_1)
  have fresh: "(1299::real) - 1000 < real_of_int 300"
    by simp
  note cached = zero_rows_are_cached
                  [where ws = "\<lambda>w q. Inr zero_row_response" and config = sample_config,
                   OF miss resp succ zero]
  have run:
    "execute_sql (\<lambda>w q. Inr zero_row_response) sample_config ''SELECT 1'' 300 1000 empty_sql_state =
       (Inr [], \<lparr>sql_cache = [''SELECT 1'' \<mapsto> (1000, [])], statements_run = [''SELECT 1'']\<rparr>)"
    using conjunct1 [OF cached] by (simp add: empty_sql_state_def strip_select_1)
  show ?thesis
    using run
      conjunct2 [OF cached, rule_format, OF same fresh,
                 of "\<lambda>w q. Inr one_row_response" sample_config]
    by simp
qed

section \<open>Properties of the chat task store\<close>

subsection \<open>The worker's scan against the statement on the payload\<close>


lemma strip_Nil [simp]: "strip [] = []"
  by (simp add: strip_def)

lemma non_blank_not_empty: "strip s \<noteq> [] \<Longrightarrow> s \<noteq> []"
  by auto

lemma scan_content_well_typed:
  "list_all well_typed_content cs \<Longrightarrow>
     scan_content cs =
       Inr (case List.map_filter (content_text non_blank) cs of [] \<Rightarrow> [] | s # _ \<Rightarrow> s)"
proof (induction cs)
  case Nil
  then show ?case by (simp add:)
next
  case (Cons c cs)
  then obtain kvs where c: "c = JObj kvs"
    by (cases c) (simp_all add: well_typed_content_def)
  from Cons have wt: "well_typed_content (JObj kvs)" and rest: "list_all well_typed_content cs"
    by (simp_all add: c)
  show ?case
    using wt Cons.IH [OF rest]
    by (auto simp: c well_typed_content_def content_text_def non_blank_def split: option.splits json.splits if_splits)
qed

lemma map_filter_non_blank_hd:
  "List.map_filter (content_text non_blank) cs = s # ss \<Longrightarrow> s \<noteq> []"
proof (induction cs)
  case Nil
  then show ?case by (simp add:)
next
  case (Cons c cs)
  then show ?case
    by (auto simp: content_text_def non_blank_def
          split: option.splits if_splits sum.splits json.splits)
qed

lemma scan_items_well_typed:
  "list_all well_typed_item items \<Longrightarrow>
     scan_items items =
       Inr (case filter (\<lambda>item. text_contents non_blank item \<noteq> []) items of
              [] \<Rightarrow> []
            | item # _ \<Rightarrow> hd (text_contents non_blank item))"
proof (induction items)
  case Nil
  then show ?case by simp
next
  case (Cons item items)
  then obtain kvs where item: "item = JObj kvs"
    by (cases item) (simp_all add: well_typed_item_def)
  from Cons have wt: "well_typed_item (JObj kvs)" and rest: "list_all well_typed_item items"
    by (simp_all add: item)
  note IH = Cons.IH [OF rest]
  show ?case
  proof (cases "is_assistant_message (JObj kvs)")
    case False
    then show ?thesis
      using IH by (auto simp: item is_assistant_message_def text_contents_def)
  next
    case True
    note am = True
    show ?thesis
    proof (cases "map_of kvs ''content''")
      case None
      then show ?thesis
        using IH am
        by (auto simp: item is_assistant_message_def text_contents_def)
    next
      case (Some v)
      show ?thesis
      proof (cases "\<exists>cs. v = JArr cs")
        case False
        then show ?thesis
          using IH am Some
          by (cases v) (auto simp: item is_assistant_message_def text_contents_def)
      next
        case True
        then obtain cs where v: "v = JArr cs" by blast
        have wtc: "list_all well_typed_content cs"
          using wt am Some v by (simp add: well_typed_item_def)
        have tc: "text_contents non_blank (JObj kvs) = List.map_filter (content_text non_blank) cs"
          using am Some v by (simp add: text_contents_def)
        show ?thesis
        proof (cases "List.map_filter (content_text non_blank) cs")
          case Nil
          then show ?thesis
            using IH am Some v scan_content_well_typed [OF wtc] tc
            by (auto simp: item is_assistant_message_def)
        next
          case (Cons s ss)
          have "s \<noteq> []" using map_filter_non_blank_hd [OF Cons] .
          then show ?thesis
            using IH am Some v scan_content_well_typed [OF wtc] tc Cons
            by (auto simp: item is_assistant_message_def)
        qed
      qed
    qed
  qed
qed

lemma final_text_well_typed:
  assumes out: "py_get data ''output'' (JArr []) = Inr (JArr output)"
      and wt: "list_all well_typed_item output"
  shows "final_text data = Inr (last_answer non_blank output)"
proof -
  have "list_all well_typed_item (rev output)"
    using wt by (simp add: list_all_iff)
  then show ?thesis
    using out by (simp add: final_text_def last_answer_def scan_items_well_typed)
qed

lemma strip_units: "strip ''42 units'' = ''42 units''" "strip ''checking stock'' = ''checking stock''"
  "strip '' '' = []"
  by (simp_all add: strip_def is_space_def)

lemma units_well_typed: "list_all well_typed_item units_output"
  by (simp add: units_output_def assistant_message_def well_typed_item_def
      well_typed_content_def is_assistant_message_def)

lemma units_answer: "last_answer non_blank units_output = ''42 units''"
  by (simp add: last_answer_def units_output_def assistant_message_def text_contents_def
      is_assistant_message_def content_text_def non_blank_def strip_units)

lemma str_int_503: "str_int 503 = ''503''"
  by (simp add: str_int_def)

subsection \<open>The worker\<close>

text \<open>
  C6, as the code has it. Let the call return status 200 with a body that decodes to an
  object whose "output" is a well-typed list (absent counts as the empty list). Then the
  worker leaves the task with status "done" and, as response, the first non-blank
  "output_text" text of the last assistant message that has one: non-blank meaning
  non-empty after \<open>strip\<close>. When no item has such a text the response is the empty
  string, and the status is "done" all the same.
\<close>

theorem done_result_is_last_non_blank_assistant_text:
  assumes call: "post (host @ ''/serving-endpoints/'' @ model @ ''/invocations'') messages
                   (AList.update ''Content-Type'' ''application/json'' auth_headers) = Inr resp"
      and ok: "status_code resp = 200"
      and body: "body_json resp = Inr data"
      and out: "py_get data ''output'' (JArr []) = Inr (JArr output)"
      and wt: "list_all well_typed_item output"
  shows "run_mas_task post task_id messages host model auth_headers tasks =
           tasks(task_id \<mapsto>
             \<lparr>status = ''done'', response = last_answer non_blank output, created_at = None\<rparr>)"
  using call ok body final_text_well_typed [OF out wt]
  by (simp add: run_mas_task_def run_mas_finish_def run_mas_try_def run_mas_enter_def)

theorem done_result_witness:
  "run_mas_task (post_returning (ok_response units_output)) ''a'' sample_messages ''https://host''
      ''mas-5fba20e2-endpoint'' [(''Authorization'', ''Bearer t'')] Map.empty =
     [''a'' \<mapsto> \<lparr>status = ''done'', response = ''42 units'', created_at = None\<rparr>]"
proof -
  have call: "(post_returning (ok_response units_output))
                (''https://host'' @ ''/serving-endpoints/'' @ ''mas-5fba20e2-endpoint'' @ ''/invocations'')
                sample_messages
                (AList.update ''Content-Type'' ''application/json'' [(''Authorization'', ''Bearer t'')])
              = Inr (ok_response units_output)"
    by (simp add: post_returning_def)
  have ok: "status_code (ok_response units_output) = 200"
    by (simp add: ok_response_def)
  have body: "body_json (ok_response units_output) = Inr (JObj [(''output'', JArr units_output)])"
    by (simp add: ok_response_def)
  have out: "py_get (JObj [(''output'', JArr units_output)]) ''output'' (JArr []) = Inr (JArr units_output)"
    by simp
  show ?thesis
    using done_result_is_last_non_blank_assistant_text
            [where post = "post_returning (ok_response units_output)"
                and task_id = "''a''" and tasks = Map.empty and messages = sample_messages
                and host = "''https://host''" and model = "''mas-5fba20e2-endpoint''"
                and auth_headers = "[(''Authorization'', ''Bearer t'')]",
                OF call ok body out units_well_typed]
    by (simp add: units_answer)
qed

text \<open>
  C6 as stated does not hold. Read with "non-empty" for the text, the last qualifying item
  of \<open>blank_output\<close> is the message whose text is one space, yet the worker skips it
  and answers "42 units". And a 200 payload need not end in "done": the output list
  \<open>[7]\<close> has no assistant message at all, and the task ends in "error" because the
  scan raises on an item that is not an object.
\<close>

theorem blank_text_and_malformed_payload_counterexample:
  "run_mas_task (post_returning (ok_response blank_output)) ''a'' sample_messages ''https://host''
      ''mas-5fba20e2-endpoint'' [(''Authorization'', ''Bearer t'')] Map.empty ''a'' =
     Some \<lparr>status = ''done'', response = ''42 units'', created_at = None\<rparr>
   \<and> last_answer non_empty blank_output = '' ''
   \<and> run_mas_task (post_returning (ok_response [JInt 7])) ''a'' sample_messages ''https://host''
      ''mas-5fba20e2-endpoint'' [(''Authorization'', ''Bearer t'')] Map.empty ''a'' =
     Some \<lparr>status = ''error'',
           response = squote @ ''int'' @ squote @ '' object has no attribute '' @ squote @ ''get'' @ squote,
           created_at = None\<rparr>
   \<and> last_answer non_empty [JInt 7] = []"
  by (simp add: run_mas_task_def run_mas_finish_def run_mas_try_def run_mas_enter_def
      ok_response_def final_text_def blank_output_def assistant_message_def strip_units
      last_answer_def text_contents_def is_assistant_message_def content_text_def non_empty_def
      post_returning_def)

text \<open>
  C7. When the call returns a status code other than 200, the worker leaves the task with
  status "error" and the response "MAS returned " followed by the decimal status code, so
  the code's digits occur in the response. \<open>run_mas_task\<close> returns a registry in every
  case: it has no raising branch.
\<close>

theorem non_200_sets_error_with_status_code:
  assumes call: "post (host @ ''/serving-endpoints/'' @ model @ ''/invocations'') messages
                   (AList.update ''Content-Type'' ''application/json'' auth_headers) = Inr resp"
      and bad: "status_code resp \<noteq> 200"
  shows "run_mas_task post task_id messages host model auth_headers tasks =
           tasks(task_id \<mapsto>
             \<lparr>status = ''error'', response = ''MAS returned '' @ str_int (status_code resp),
              created_at = None\<rparr>) \<and>
         sublist (str_int (status_code resp))
           (response (the (run_mas_task post task_id messages host model auth_headers tasks task_id)))"
proof -
  let ?diag = "''MAS returned '' @ str_int (status_code resp)"
  have run: "run_mas_task post task_id messages host model auth_headers tasks =
               tasks(task_id \<mapsto> \<lparr>status = ''error'', response = ?diag, created_at = None\<rparr>)"
    using call bad
    by (simp add: run_mas_task_def run_mas_finish_def run_mas_try_def run_mas_enter_def)
  have "suffix (str_int (status_code resp)) ?diag"
    by (rule suffixI) (rule refl)
  then have "sublist (str_int (status_code resp)) ?diag"
    by (rule suffix_imp_sublist)
  then show ?thesis
    by (simp add: run)
qed

theorem http_503_witness:
  "run_mas_task (post_returning unavailable_response) ''a'' sample_messages ''https://host''
      ''mas-5fba20e2-endpoint'' [(''Authorization'', ''Bearer t'')] Map.empty =
     [''a'' \<mapsto> \<lparr>status = ''error'', response = ''MAS returned 503'', created_at = None\<rparr>] \<and>
   sublist ''503'' ''MAS returned 503''"
proof -
  have call: "(post_returning unavailable_response)
                (''https://host'' @ ''/serving-endpoints/'' @ ''mas-5fba20e2-endpoint'' @ ''/invocations'')
                sample_messages
                (AList.update ''Content-Type'' ''application/json'' [(''Authorization'', ''Bearer t'')])
              = Inr unavailable_response"
    by (simp add: post_returning_def)
  have bad: "status_code unavailable_response \<noteq> 200"
    by (simp add: unavailable_response_def)
  have code: "status_code unavailable_response = 503"
    by (simp add: unavailable_response_def)
  note diag = non_200_sets_error_with_status_code
            [where post = "post_returning unavailable_response"
                and task_id = "''a''" and tasks = Map.empty and messages = sample_messages
                and host = "''https://host''" and model = "''mas-5fba20e2-endpoint''"
                and auth_headers = "[(''Authorization'', ''Bearer t'')]", OF call bad]
  have run: "run_mas_task (post_returning unavailable_response) ''a'' sample_messages
               ''https://host'' ''mas-5fba20e2-endpoint'' [(''Authorization'', ''Bearer t'')] Map.empty =
             [''a'' \<mapsto> \<lparr>status = ''error'', response = ''MAS returned 503'', created_at = None\<rparr>]"
    using conjunct1 [OF diag] by (simp add: code str_int_503)
  have "sublist ''503'' ''MAS returned 503''"
    using conjunct2 [OF diag] by (simp add: run code str_int_503)
  then show ?thesis
    using run by simp
qed

subsection \<open>Polling\<close>

text \<open>
  C5. For a task id with no entry in the registry, \<open>poll_chat\<close> returns the payload
  with that id, status "error" and response "Task not found"; it returns normally, with
  the registry as it was.
\<close>

theorem poll_unknown_task_is_not_found:
  "tasks task_id = None \<Longrightarrow>
     poll_chat task_id tasks =
       (\<lparr>out_task_id = task_id, out_status = ''error'', out_response = ''Task not found''\<rparr>, tasks)"
  by (simp add: poll_chat_def)

theorem poll_reclaimed_task_witness:
  "poll_chat ''a''
     (cleanup_old_tasks 1700000301
        [''a'' \<mapsto> \<lparr>status = ''pending'', response = [], created_at = Some 1700000000\<rparr>]) =
     (\<lparr>out_task_id = ''a'', out_status = ''error'', out_response = ''Task not found''\<rparr>,
      cleanup_old_tasks 1700000301
        [''a'' \<mapsto> \<lparr>status = ''pending'', response = [], created_at = Some 1700000000\<rparr>])"
proof -
  have gone: "cleanup_old_tasks 1700000301
        [''a'' \<mapsto> \<lparr>status = ''pending'', response = [], created_at = Some 1700000000\<rparr>] ''a'' = None"
    by (simp add: cleanup_old_tasks_def get_created_at_def)
  show ?thesis
    using poll_unknown_task_is_not_found [where task_id = "''a''" and tasks = "cleanup_old_tasks 1700000301
        [''a'' \<mapsto> \<lparr>status = ''pending'', response = [], created_at = Some 1700000000\<rparr>]",
        OF gone] .
qed

text \<open>
  C10. \<open>poll_chat\<close> leaves the registry exactly as it found it, for a known id as for
  an unknown one (so no entry appears for an unknown id), and the payload carries the id
  that was asked for.
\<close>

theorem poll_leaves_registry_unchanged:
  "snd (poll_chat task_id tasks) = tasks \<and> out_task_id (fst (poll_chat task_id tasks)) = task_id"
  by (simp add: poll_chat_def split: option.splits)

subsection \<open>Where the registry departs from its state machine\<close>

text \<open>
  C3 fails on the code. \<open>start_chat\<close> starts the worker before it writes "pending".
  In the schedule below the submitter starts the thread and sweeps, the worker writes
  "running", its call is refused at once and it writes "error", and only then the
  submitter writes "pending": the entry goes from the terminal "error" back to "pending",
  and stays there with both threads finished.
\<close>

theorem late_pending_write_overwrites_terminal_status:
  "status_trace refused_run
     [(Submitter, 1700000000), (Submitter, 1700000000), (Worker, 1700000000),
      (Worker, 1700000000), (Submitter, 1700000000)]
     (initial_system Map.empty) =
   ([None, None, Some ''running'', Some ''error'', Some ''pending''],
    \<lparr>registry = [''a'' \<mapsto> \<lparr>status = ''pending'', response = [], created_at = Some 1700000000\<rparr>],
     submit_at = Returned, worker_at = Finished\<rparr>)"
  by (simp add: refused_run_def initial_system_def cleanup_old_tasks_def run_mas_enter_def
      run_mas_finish_def run_mas_try_def register_pending_def)

text \<open>
  C4 fails on the code. The worker's writes replace the whole entry and carry no
  created_at, and the sweep reads a missing created_at as 0. Task "a" is submitted at
  1700000000 and its worker completes; a submit one second later sweeps the "done" entry
  away, although the task is one second old. For an entry that does carry created_at the
  sweep keeps it exactly while \<open>now - created_at \<le> 300\<close>.
\<close>

theorem sweep_removes_recent_worker_entry:
  "snd (start_chat ''a'' 1700000000 1700000000 Map.empty) ''a'' =
     Some \<lparr>status = ''pending'', response = [], created_at = Some 1700000000\<rparr> \<and>
   run_mas_task (post_returning (ok_response units_output)) ''a'' sample_messages ''https://host''
      ''mas-5fba20e2-endpoint'' [(''Authorization'', ''Bearer t'')]
      (snd (start_chat ''a'' 1700000000 1700000000 Map.empty)) ''a'' =
     Some \<lparr>status = ''done'', response = ''42 units'', created_at = None\<rparr> \<and>
   snd (start_chat ''b'' 1700000001 1700000001
     (run_mas_task (post_returning (ok_response units_output)) ''a'' sample_messages ''https://host''
      ''mas-5fba20e2-endpoint'' [(''Authorization'', ''Bearer t'')]
      (snd (start_chat ''a'' 1700000000 1700000000 Map.empty)))) ''a'' = None"
  by (simp add: start_chat_def register_pending_def cleanup_old_tasks_def get_created_at_def
      run_mas_task_def run_mas_finish_def run_mas_try_def run_mas_enter_def ok_response_def
      final_text_def units_output_def assistant_message_def strip_units post_returning_def)

lemma cleanup_old_tasks_stamped:
  "tasks k = Some v \<Longrightarrow> created_at v = Some t \<Longrightarrow>
     cleanup_old_tasks now tasks k = (if now - t > 300 then None else Some v)"
  by (simp add: cleanup_old_tasks_def get_created_at_def)

end
